theory Spec2Isabelle
  imports Main "HOL-Library.Sublist"
begin

section \<open>The audit form of SeoAuditAi: \<^verbatim>\<open>src/frontend/script.js\<close>\<close>

text \<open>
  The script binds one asynchronous handler to the submit event of the audit form and
  declares one helper, \<^verbatim>\<open>formatResults\<close>. The handler reads the URL field, marks the
  button as busy, posts the URL to the audit service and writes either the formatted
  report or an error banner into the result container.

  JavaScript strings are modelled as \<^typ>\<open>string\<close>. The values the service returns
  are modelled with the shape the script's comments assume (an object with optional
  \<^verbatim>\<open>status\<close>, \<^verbatim>\<open>data\<close> and \<^verbatim>\<open>message\<close>, the data an object with optional string
  arrays \<^verbatim>\<open>errors\<close> and \<^verbatim>\<open>warnings\<close>); an absent property reads as
  \<^verbatim>\<open>undefined\<close> and is \<^term>\<open>None\<close> here. The page is taken to contain the four
  elements the script looks up by identifier.
\<close>

subsection \<open>Values returned by the service\<close>

record audit_data =
  errors :: "string list option"
  warnings :: "string list option"

subsection \<open>Exceptions\<close>

text \<open>
  Every value thrown inside the \<^verbatim>\<open>try\<close> block is an error object with a
  \<^verbatim>\<open>message\<close> property. \<^verbatim>\<open>Error\<close> is the object built on line 22. The rejection of
  \<^verbatim>\<open>fetch\<close> and the rejection of \<^verbatim>\<open>response.json()\<close> carry a message chosen by the
  browser. Reading a property of \<^verbatim>\<open>undefined\<close> (line 44, when the response has no
  \<^verbatim>\<open>data\<close>) raises a \<^verbatim>\<open>TypeError\<close> whose wording depends on the engine: the engine
  is a parameter \<open>engine\<close> that maps the property's name to that wording.
\<close>

datatype js_error =
    Error string
  | FetchRejection string
  | SyntaxError string
  | TypeError_undefined string

fun error_message :: "(string \<Rightarrow> string) \<Rightarrow> js_error \<Rightarrow> string" where
  "error_message engine (Error m) = m"
| "error_message engine (FetchRejection m) = m"
| "error_message engine (SyntaxError m) = m"
| "error_message engine (TypeError_undefined property) = engine property"

subsection \<open>The page\<close>

text \<open>
  The properties of the page that the handler reads or writes: the value of the element
  \<^verbatim>\<open>urlInput\<close>, the \<^verbatim>\<open>disabled\<close> flag and the label of \<^verbatim>\<open>submitBtn\<close>, and the markup
  of \<^verbatim>\<open>result\<close> (the variable \<^verbatim>\<open>resultDiv\<close>).
\<close>

record page =
  urlInput_value :: string
  submitBtn_disabled :: bool
  submitBtn_textContent :: string
  resultDiv_innerHTML :: string

subsection \<open>\<^verbatim>\<open>formatResults\<close> (lines 41 to 62)\<close>

text \<open>
  \<^verbatim>\<open>Array.prototype.forEach\<close>, with the callback's effect on the enclosing variable
  \<^verbatim>\<open>html\<close> written as a function on that variable.
\<close>

fun forEach :: "'a list \<Rightarrow> ('a \<Rightarrow> 's \<Rightarrow> 's) \<Rightarrow> 's \<Rightarrow> 's" where
  "forEach [] callback s = s"
| "forEach (x # xs) callback s = forEach xs callback (callback x s)"

text \<open>
  \<^verbatim>\<open>a && a.length\<close> for a property that is absent or an array: an array is truthy
  even when empty, its length is truthy when it is not zero.
\<close>

definition present_and_length :: "'a list option \<Rightarrow> bool" where
  "present_and_length a = (case a of None \<Rightarrow> False | Some xs \<Rightarrow> length xs \<noteq> 0)"

text \<open>\<^verbatim>\<open>!a\<close> for a property that is absent or an array: only \<^verbatim>\<open>undefined\<close> is falsy.\<close>

definition falsy :: "'a list option \<Rightarrow> bool" where
  "falsy a = (case a of None \<Rightarrow> True | Some xs \<Rightarrow> False)"

text \<open>
  The function itself. Reading \<^verbatim>\<open>data.errors\<close> when \<^verbatim>\<open>data\<close> is \<^verbatim>\<open>undefined\<close> throws.
  Each array is read (with \<^term>\<open>the\<close>) only under the test that it is present.
\<close>

definition formatResults :: "audit_data option \<Rightarrow> js_error + string" where
  \<open>formatResults data =
     (case data of
        None \<Rightarrow> Inl (TypeError_undefined ''errors'')
      | Some d \<Rightarrow>
          let html = ''<h3>Audit Results</h3>'';
              html =
                (if present_and_length (errors d) then
                   let html = html @ ''<h4>Errors</h4><ul class="list-group mb-3">'';
                       html = forEach (the (errors d))
                                (\<lambda>error html. html @ ''<li class="list-group-item">'' @ error @ ''</li>'')
                                html
                   in html @ ''</ul>''
                 else html);
              html =
                (if present_and_length (warnings d) then
                   let html = html @ ''<h4>Warnings</h4><ul class="list-group mb-3">'';
                       html = forEach (the (warnings d))
                                (\<lambda>warning html. html @ ''<li class="list-group-item">'' @ warning @ ''</li>'')
                                html
                   in html @ ''</ul>''
                 else html);
              html =
                (if falsy (errors d) \<and> falsy (warnings d) then
                   html @ ''<div class="alert alert-success">No issues found!</div>''
                 else html)
          in Inr html)\<close>

subsection \<open>\<^verbatim>\<open>formatResults\<close> as a call inside the script\<close>

text \<open>
  A function of the script runs with the page in reach (through \<^verbatim>\<open>document\<close>) and
  could read or change it. To say what a call of \<^verbatim>\<open>formatResults\<close> depends on and
  what it changes, its body is written once more, statement by statement, as steps on
  the scope of the call: the local variable \<^verbatim>\<open>html\<close> and the page.
\<close>

record scope =
  html_var :: string
  document :: page

text \<open>\<^verbatim>\<open>html += x\<close> (lines 45, 47, 49, 52, 54, 56 and 59).\<close>

definition add_html :: "string \<Rightarrow> scope \<Rightarrow> scope" where
  "add_html x s = s\<lparr>html_var := html_var s @ x\<rparr>"

text \<open>
  The call on a page: the value returned (or the error thrown) and the page after the
  call. Line 43 creates the local variable.
\<close>

definition formatResults_call :: "page \<Rightarrow> audit_data option \<Rightarrow> (js_error + string) \<times> page" where
  \<open>formatResults_call p data =
     (case data of
        None \<Rightarrow> (Inl (TypeError_undefined ''errors''), p)
      | Some d \<Rightarrow>
          let s = \<lparr>html_var = ''<h3>Audit Results</h3>'', document = p\<rparr>;
              s =
                (if present_and_length (errors d) then
                   let s = add_html ''<h4>Errors</h4><ul class="list-group mb-3">'' s;
                       s = forEach (the (errors d))
                             (\<lambda>error. add_html (''<li class="list-group-item">'' @ error @ ''</li>''))
                             s
                   in add_html ''</ul>'' s
                 else s);
              s =
                (if present_and_length (warnings d) then
                   let s = add_html ''<h4>Warnings</h4><ul class="list-group mb-3">'' s;
                       s = forEach (the (warnings d))
                             (\<lambda>warning. add_html (''<li class="list-group-item">'' @ warning @ ''</li>''))
                             s
                   in add_html ''</ul>'' s
                 else s);
              s =
                (if falsy (errors d) \<and> falsy (warnings d) then
                   add_html ''<div class="alert alert-success">No issues found!</div>'' s
                 else s)
          in (Inr (html_var s), document s))\<close>

subsection \<open>The parsed response body\<close>

record audit_response =
  status :: "string option"
  data :: "audit_data option"
  message :: "string option"

subsection \<open>Effects of the handler\<close>

text \<open>The second argument of \<^verbatim>\<open>fetch\<close>.\<close>

record request_init =
  "method" :: string
  headers :: "(string \<times> string) list"
  body :: string

text \<open>
  What the handler does to the outside, in the order it does it: the call of
  \<^verbatim>\<open>e.preventDefault()\<close>, the three kinds of assignment to the page, and the call of
  \<^verbatim>\<open>fetch\<close> with its two arguments.
\<close>

datatype effect =
    PreventDefault
  | Set_submitBtn_disabled bool
  | Set_submitBtn_textContent string
  | Set_resultDiv_innerHTML string
  | Fetch string request_init

fun is_request :: "effect \<Rightarrow> bool" where
  "is_request (Fetch resource init) = True"
| "is_request other = False"

fun perform :: "page \<Rightarrow> effect \<Rightarrow> page" where
  "perform p PreventDefault = p"
| "perform p (Set_submitBtn_disabled b) = p\<lparr>submitBtn_disabled := b\<rparr>"
| "perform p (Set_submitBtn_textContent t) = p\<lparr>submitBtn_textContent := t\<rparr>"
| "perform p (Set_resultDiv_innerHTML h) = p\<lparr>resultDiv_innerHTML := h\<rparr>"
| "perform p (Fetch resource init) = p"

definition run :: "page \<Rightarrow> effect list \<Rightarrow> page" where
  "run p effects = foldl perform p effects"

subsection \<open>\<^verbatim>\<open>JSON.stringify({ url })\<close> (line 18)\<close>

text \<open>
  The serialisation of an object with the single string property \<^verbatim>\<open>url\<close>, after
  ECMAScript's \<^verbatim>\<open>QuoteJSONString\<close>: the quotation mark, the backslash and the control
  characters below U+0020 are escaped, every other character is copied. (A
  \<^typ>\<open>string\<close> holds no lone surrogate, the only other character that is escaped.)
\<close>

definition hex_digit :: "nat \<Rightarrow> char" where
  "hex_digit n = ''0123456789abcdef'' ! n"

definition quote_char :: "char \<Rightarrow> string" where
  "quote_char c =
     (if c = CHR 0x08 then [CHR 0x5C, CHR ''b'']
      else if c = CHR 0x09 then [CHR 0x5C, CHR ''t'']
      else if c = CHR 0x0A then [CHR 0x5C, CHR ''n'']
      else if c = CHR 0x0C then [CHR 0x5C, CHR ''f'']
      else if c = CHR 0x0D then [CHR 0x5C, CHR ''r'']
      else if c = CHR 0x22 then [CHR 0x5C, CHR 0x22]
      else if c = CHR 0x5C then [CHR 0x5C, CHR 0x5C]
      else if (of_char c :: nat) < 32 then
        [CHR 0x5C, CHR ''u'', CHR ''0'', CHR ''0'',
         hex_digit (of_char c div 16), hex_digit (of_char c mod 16)]
      else [c])"

definition QuoteJSONString :: "string \<Rightarrow> string" where
  "QuoteJSONString s = [CHR 0x22] @ concat (map quote_char s) @ [CHR 0x22]"

definition JSON_stringify_url :: "string \<Rightarrow> string" where
  \<open>JSON_stringify_url url = ''{"url":'' @ QuoteJSONString url @ ''}''\<close>

subsection \<open>Promises and the HTTP response\<close>

text \<open>
  What \<^verbatim>\<open>await\<close> finds: the promise never settles (the handler stays suspended), it
  is rejected with an error (which \<^verbatim>\<open>await\<close> throws), or it is fulfilled with a value.
\<close>

datatype 'a awaited = Never | Rejected js_error | Fulfilled 'a

text \<open>
  The response \<^verbatim>\<open>fetch\<close> resolves to: its numeric status, and what awaiting
  \<^verbatim>\<open>response.json()\<close> finds.
\<close>

record response =
  status :: nat
  json :: "audit_response awaited"

text \<open>\<^verbatim>\<open>response.ok\<close>: by the Fetch standard, the status is in the range 200 to 299.\<close>

definition ok :: "response \<Rightarrow> bool" where
  "ok r = (200 \<le> response.status r \<and> response.status r \<le> 299)"

text \<open>
  A status interpolated into a template literal (line 22): the decimal digits of a
  non-negative integer, without leading zeros.
\<close>

definition digit :: "nat \<Rightarrow> char" where
  "digit n = ''0123456789'' ! n"

function decimal :: "nat \<Rightarrow> string" where
  "decimal n = (if n < 10 then [digit n] else decimal (n div 10) @ [digit (n mod 10)])"
  by pat_completeness auto
termination
  by (relation "measure (\<lambda>n. n)") auto

declare decimal.simps [simp del]

subsection \<open>The submit handler (lines 1 to 38)\<close>

text \<open>
  \<^verbatim>\<open>a || b\<close> for a property \<open>a\<close> that is absent or a string: \<^verbatim>\<open>undefined\<close> and the
  empty string are falsy.
\<close>

definition or_else :: "string option \<Rightarrow> string \<Rightarrow> string" where
  "or_else a b = (case a of None \<Rightarrow> b | Some m \<Rightarrow> if m = [] then b else m)"

text \<open>How a block ends: suspended for ever in an \<^verbatim>\<open>await\<close>, by a throw, or normally.\<close>

datatype completion = Suspended | Thrown js_error | Completed

text \<open>
  The \<^verbatim>\<open>try\<close> block (lines 13 to 31), given the URL read on line 3 and what the
  first \<^verbatim>\<open>await\<close> finds. It returns the effects it has performed and how it ends.
  The variable \<^verbatim>\<open>data\<close> of line 25 is \<open>parsed\<close> here.
\<close>

definition try_block :: "string \<Rightarrow> response awaited \<Rightarrow> effect list \<times> completion" where
  \<open>try_block url outcome =
     (let request =
            Fetch ''https://seoauditai.onrender.com/audit''
              \<lparr>method = ''POST'',
               headers = [(''Content-Type'', ''application/json'')],
               body = JSON_stringify_url url\<rparr>
      in case outcome of
           Never \<Rightarrow> ([request], Suspended)
         | Rejected error \<Rightarrow> ([request], Thrown error)
         | Fulfilled response \<Rightarrow>
             if \<not> ok response then
               ([request], Thrown (Error (''HTTP error! Status: '' @ decimal (response.status response))))
             else
               (case json response of
                  Never \<Rightarrow> ([request], Suspended)
                | Rejected error \<Rightarrow> ([request], Thrown error)
                | Fulfilled parsed \<Rightarrow>
                    if audit_response.status parsed = Some ''success'' then
                      (case formatResults (data parsed) of
                         Inl error \<Rightarrow> ([request], Thrown error)
                       | Inr html \<Rightarrow> ([request, Set_resultDiv_innerHTML html], Completed))
                    else
                      ([request,
                        Set_resultDiv_innerHTML
                          (''<div class="alert alert-danger">Error: ''
                             @ or_else (message parsed) ''Audit failed'' @ ''</div>'')],
                       Completed)))\<close>

text \<open>Lines 2 to 10: what the handler does before it enters the \<^verbatim>\<open>try\<close> block.\<close>

definition before_try :: "effect list" where
  "before_try =
     [PreventDefault,
      Set_submitBtn_disabled True,
      Set_submitBtn_textContent ''Running Audit...'',
      Set_resultDiv_innerHTML ''<p>Loading...</p>'']"

text \<open>The \<^verbatim>\<open>catch\<close> block (line 33).\<close>

definition catch_block :: "(string \<Rightarrow> string) \<Rightarrow> js_error \<Rightarrow> effect list" where
  \<open>catch_block engine error =
     [Set_resultDiv_innerHTML
        (''<div class="alert alert-danger">Error: '' @ error_message engine error @ ''</div>'')]\<close>

text \<open>The \<^verbatim>\<open>finally\<close> block (lines 35 and 36).\<close>

definition finally_block :: "effect list" where
  "finally_block = [Set_submitBtn_disabled False, Set_submitBtn_textContent ''Run Audit'']"

text \<open>
  One run of the handler on a page, given what the awaits find: the effects it
  performs, in order. A handler suspended for ever performs neither the \<^verbatim>\<open>catch\<close> nor
  the \<^verbatim>\<open>finally\<close> block.
\<close>

definition submit :: "(string \<Rightarrow> string) \<Rightarrow> page \<Rightarrow> response awaited \<Rightarrow> effect list" where
  "submit engine p outcome =
     (let url = urlInput_value p;
          (effects, ending) = try_block url outcome
      in case ending of
           Suspended \<Rightarrow> before_try @ effects
         | Thrown error \<Rightarrow> before_try @ effects @ catch_block engine error @ finally_block
         | Completed \<Rightarrow> before_try @ effects @ finally_block)"

text \<open>The page after the run.\<close>

definition after_submit :: "(string \<Rightarrow> string) \<Rightarrow> page \<Rightarrow> response awaited \<Rightarrow> page" where
  "after_submit engine p outcome = run p (submit engine p outcome)"

text \<open>The awaits of a run all settle.\<close>

fun settles :: "response awaited \<Rightarrow> bool" where
  "settles Never = False"
| "settles (Rejected error) = True"
| "settles (Fulfilled response) = (if ok response then json response \<noteq> Never else True)"

text \<open>The markup of a failure banner around a text, as lines 30 and 33 build it.\<close>

definition failure_banner :: "string \<Rightarrow> string" where
  \<open>failure_banner m = ''<div class="alert alert-danger">Error: '' @ m @ ''</div>''\<close>

subsection \<open>Concrete inputs\<close>

text \<open>
  A page at rest (the form idle, the button enabled and labelled \<^verbatim>\<open>Run Audit\<close>), and
  the wording of one engine (V8) for the read of a property of \<^verbatim>\<open>undefined\<close>.
\<close>

definition idle_page :: page where
  "idle_page =
     \<lparr>urlInput_value = ''https://example.com'', submitBtn_disabled = False,
      submitBtn_textContent = ''Run Audit'', resultDiv_innerHTML = []\<rparr>"

definition v8 :: "string \<Rightarrow> string" where
  "v8 property =
     ''Cannot read properties of undefined (reading '' @ [CHR 0x27] @ property @ [CHR 0x27] @ '')''"

section \<open>Properties of \<^verbatim>\<open>formatResults\<close>\<close>

lemma forEach_append:
  "forEach xs (\<lambda>x html. html @ f x) html0 = html0 @ concat (map f xs)"
  by (induction xs arbitrary: html0) simp_all

text \<open>
  The markup of a data object without the accumulator: the heading, a section for each
  array that is present and not empty, and the success indicator when both properties
  are absent.
\<close>

lemma formatResults_object:
  \<open>formatResults (Some d) =
     Inr (''<h3>Audit Results</h3>''
          @ (case errors d of
               None \<Rightarrow> []
             | Some es \<Rightarrow>
                 if es = [] then []
                 else ''<h4>Errors</h4><ul class="list-group mb-3">''
                      @ concat (map (\<lambda>e. ''<li class="list-group-item">'' @ e @ ''</li>'') es)
                      @ ''</ul>'')
          @ (case warnings d of
               None \<Rightarrow> []
             | Some ws \<Rightarrow>
                 if ws = [] then []
                 else ''<h4>Warnings</h4><ul class="list-group mb-3">''
                      @ concat (map (\<lambda>w. ''<li class="list-group-item">'' @ w @ ''</li>'') ws)
                      @ ''</ul>'')
          @ (if errors d = None \<and> warnings d = None
             then ''<div class="alert alert-success">No issues found!</div>'' else []))\<close>
proof -
  have li: "\<And>xs html0. forEach xs (\<lambda>x html. html @ ''<li class=\"list-group-item\">'' @ x @ ''</li>'') html0
      = html0 @ concat (map (\<lambda>x. ''<li class=\"list-group-item\">'' @ x @ ''</li>'') xs)"
    using forEach_append [where f = "\<lambda>x. ''<li class=\"list-group-item\">'' @ x @ ''</li>''"] by simp
  show ?thesis
    unfolding formatResults_def present_and_length_def falsy_def Let_def li
    by (cases "errors d"; cases "warnings d") simp_all
qed

lemma formatResults_no_properties:
  \<open>formatResults (Some \<lparr>errors = None, warnings = None\<rparr>) =
     Inr ''<h3>Audit Results</h3><div class="alert alert-success">No issues found!</div>''\<close>
  by (simp add: formatResults_object)

text \<open>
  C2. The success indicator is rendered exactly when neither array is present and
  non-empty. The code renders it only when both properties are absent: for the data
  object \<^verbatim>\<open>{errors: [], warnings: []}\<close>, the shape the comment on line 42 names, the
  output is the heading alone, with neither a section nor the indicator.
\<close>

theorem formatResults_empty_arrays:
  "formatResults (Some \<lparr>errors = Some [], warnings = Some []\<rparr>) = Inr ''<h3>Audit Results</h3>''"
  by (simp add: formatResults_object)

text \<open>
  C3. For a data object whose \<^verbatim>\<open>errors\<close> and \<^verbatim>\<open>warnings\<close> arrays are both non-empty,
  the markup is the heading, then the errors section with one list item per entry in
  array order, then the warnings section with one list item per entry in array order;
  the text of each entry stands in its item as it is, with no escaping.
\<close>

theorem formatResults_errors_then_warnings:
  assumes "errors d = Some es" and "es \<noteq> []" and "warnings d = Some ws" and "ws \<noteq> []"
  shows \<open>formatResults (Some d) =
     Inr (''<h3>Audit Results</h3>''
          @ ''<h4>Errors</h4><ul class="list-group mb-3">''
          @ concat (map (\<lambda>e. ''<li class="list-group-item">'' @ e @ ''</li>'') es)
          @ ''</ul>''
          @ ''<h4>Warnings</h4><ul class="list-group mb-3">''
          @ concat (map (\<lambda>w. ''<li class="list-group-item">'' @ w @ ''</li>'') ws)
          @ ''</ul>'')\<close>
  using assms by (simp add: formatResults_object)

theorem formatResults_errors_then_warnings_witness:
  \<open>[''E1''] \<noteq> [] \<and> [''W1'', ''W2''] \<noteq> [] \<and>
   formatResults (Some \<lparr>errors = Some [''E1''], warnings = Some [''W1'', ''W2'']\<rparr>) =
     Inr (''<h3>Audit Results</h3>''
          @ ''<h4>Errors</h4><ul class="list-group mb-3">''
          @ ''<li class="list-group-item">E1</li>''
          @ ''</ul>''
          @ ''<h4>Warnings</h4><ul class="list-group mb-3">''
          @ ''<li class="list-group-item">W1</li>'' @ ''<li class="list-group-item">W2</li>''
          @ ''</ul>'')\<close>
  using formatResults_errors_then_warnings
    [of "\<lparr>errors = Some [''E1''], warnings = Some [''W1'', ''W2'']\<rparr>" "[''E1'']" "[''W1'', ''W2'']"]
  by simp

text \<open>
  C10. For every data object the markup begins with the heading
  \<^verbatim>\<open><h3>Audit Results</h3>\<close>, whatever follows it.
\<close>

theorem formatResults_heading:
  "\<exists>rest. formatResults (Some d) = Inr (''<h3>Audit Results</h3>'' @ rest)"
  unfolding formatResults_object by blast

text \<open>The loop of line 46 (and of line 53) on the scope: it appends to \<^verbatim>\<open>html\<close> only.\<close>

lemma forEach_add_html:
  "forEach xs (\<lambda>x. add_html (f x)) s = s\<lparr>html_var := html_var s @ concat (map f xs)\<rparr>"
  by (induction xs arbitrary: s) (simp_all add: add_html_def)

lemma formatResults_call_object:
  "formatResults_call p (Some d) = (formatResults (Some d), p)"
proof -
  have li: "\<And>xs s. forEach xs (\<lambda>x. add_html (''<li class=\"list-group-item\">'' @ x @ ''</li>'')) s
      = s\<lparr>html_var := html_var s
            @ concat (map (\<lambda>x. ''<li class=\"list-group-item\">'' @ x @ ''</li>'') xs)\<rparr>"
    using forEach_add_html [where f = "\<lambda>x. ''<li class=\"list-group-item\">'' @ x @ ''</li>''"] by simp
  show ?thesis
    unfolding formatResults_object
    unfolding formatResults_call_def present_and_length_def falsy_def Let_def li
    by (cases "errors d"; cases "warnings d") (simp_all add: add_html_def)
qed

text \<open>
  C9. \<^verbatim>\<open>formatResults\<close> is pure and deterministic. Called on whatever page, it leaves
  the page as it was, and what it returns is the value of the function
  \<^term>\<open>formatResults\<close> at its argument: two calls with the same data, on whatever two
  pages, return the same result, so nothing outside the argument is read.
\<close>

theorem formatResults_pure:
  "formatResults_call p d = (formatResults d, p)
   \<and> fst (formatResults_call p d) = fst (formatResults_call p' d)"
proof -
  have "formatResults_call q d = (formatResults d, q)" for q
  proof (cases d)
    case None
    then show ?thesis by (simp add: formatResults_call_def formatResults_def)
  next
    case (Some obj)
    then show ?thesis by (simp add: formatResults_call_object)
  qed
  then show ?thesis by simp
qed

section \<open>Properties of \<^verbatim>\<open>JSON.stringify({ url })\<close>\<close>

lemma hex_digit_inj: "m < 16 \<Longrightarrow> n < 16 \<Longrightarrow> hex_digit m = hex_digit n \<Longrightarrow> m = n"
  unfolding hex_digit_def
  by (subst (asm) nth_eq_iff_index_eq) simp_all

lemma hex_pair_inj:
  assumes "(of_char c :: nat) < 32" and "(of_char d :: nat) < 32"
    and "hex_digit (of_char c div 16) = hex_digit (of_char d div 16)"
    and "hex_digit (of_char c mod 16) = hex_digit (of_char d mod 16)"
  shows "c = d"
proof -
  have "(of_char c :: nat) div 16 = of_char d div 16"
    using assms(1,2,3) by (intro hex_digit_inj) simp_all
  moreover have "(of_char c :: nat) mod 16 = of_char d mod 16"
    using assms(4) by (intro hex_digit_inj) simp_all
  ultimately have "(of_char c :: nat) = of_char d"
    by (metis div_mult_mod_eq)
  then show ?thesis by simp
qed

text \<open>The three shapes of an escaped character: itself, a short escape, a \<^verbatim>\<open>\u\<close> escape.\<close>

lemma quote_char_cases:
  "quote_char c = [c] \<and> c \<noteq> CHR 0x5C \<and> c \<noteq> CHR 0x22
   \<or> (\<exists>x. quote_char c = [CHR 0x5C, x] \<and> x \<noteq> CHR ''u'')
   \<or> quote_char c = [CHR 0x5C, CHR ''u'', CHR ''0'', CHR ''0'',
         hex_digit (of_char c div 16), hex_digit (of_char c mod 16)] \<and> (of_char c :: nat) < 32"
  by (simp add: quote_char_def)

lemma quote_char_short_inj:
  "quote_char c = [CHR 0x5C, x] \<Longrightarrow> quote_char d = [CHR 0x5C, x] \<Longrightarrow> c = d"
  by (auto simp: quote_char_def split: if_splits)

lemma quote_char_prefix_free:
  assumes "quote_char c @ xs = quote_char d @ ys"
  shows "c = d \<and> xs = ys"
proof -
  have "c = d"
    using quote_char_cases [of c] quote_char_cases [of d] assms
    by (elim disjE conjE exE) (auto dest: quote_char_short_inj hex_pair_inj)
  with assms show ?thesis by simp
qed

lemma quote_chars_inj:
  "concat (map quote_char s) @ [CHR 0x22] = concat (map quote_char t) @ [CHR 0x22] \<Longrightarrow> s = t"
proof (induction s arbitrary: t)
  case Nil
  show ?case
  proof (cases t)
    case Nil
    then show ?thesis by simp
  next
    case (Cons d t')
    with Nil.prems have "[CHR 0x22] = quote_char d @ concat (map quote_char t') @ [CHR 0x22]"
      by simp
    with quote_char_cases [of d] show ?thesis
      by (auto simp: Cons_eq_append_conv)
  qed
next
  case (Cons c s)
  show ?case
  proof (cases t)
    case Nil
    with Cons.prems have "quote_char c @ concat (map quote_char s) @ [CHR 0x22] = [CHR 0x22]"
      by simp
    with quote_char_cases [of c] show ?thesis
      by (auto simp: append_eq_Cons_conv)
  next
    case (Cons d t')
    with Cons.prems have "quote_char c @ (concat (map quote_char s) @ [CHR 0x22])
        = quote_char d @ (concat (map quote_char t') @ [CHR 0x22])"
      by simp
    then have "c = d \<and> concat (map quote_char s) @ [CHR 0x22] = concat (map quote_char t') @ [CHR 0x22]"
      by (rule quote_char_prefix_free)
    with Cons.IH [of t'] Cons show ?thesis by simp
  qed
qed

lemma JSON_stringify_url_inj: "inj JSON_stringify_url"
  by (rule injI) (simp add: JSON_stringify_url_def QuoteJSONString_def quote_chars_inj)

section \<open>Properties of the submit handler\<close>

subsection \<open>The \<^verbatim>\<open>try\<close> block\<close>

lemma try_block_first:
  \<open>\<exists>later. fst (try_block url outcome) =
      Fetch ''https://seoauditai.onrender.com/audit''
        \<lparr>method = ''POST'', headers = [(''Content-Type'', ''application/json'')],
         body = JSON_stringify_url url\<rparr> # later \<and> \<not> list_ex is_request later\<close>
  by (simp add: try_block_def Let_def split: awaited.split sum.split)

lemma try_block_settles:
  "settles outcome \<Longrightarrow> snd (try_block url outcome) \<noteq> Suspended"
  by (cases outcome) (auto simp: try_block_def Let_def split: awaited.split sum.split if_splits)

lemma try_block_rejected:
  "snd (try_block url (Rejected error)) = Thrown error"
  by (simp add: try_block_def)

lemma try_block_not_ok:
  "\<not> ok response \<Longrightarrow>
   snd (try_block url (Fulfilled response)) =
     Thrown (Error (''HTTP error! Status: '' @ decimal (response.status response)))"
  by (simp add: try_block_def)

lemma try_block_json_rejected:
  "ok response \<Longrightarrow> json response = Rejected error \<Longrightarrow>
   snd (try_block url (Fulfilled response)) = Thrown error"
  by (simp add: try_block_def)

lemma try_block_no_data:
  "ok response \<Longrightarrow> json response = Fulfilled parsed \<Longrightarrow>
   audit_response.status parsed = Some ''success'' \<Longrightarrow> data parsed = None \<Longrightarrow>
   snd (try_block url (Fulfilled response)) = Thrown (TypeError_undefined ''errors'')"
  by (simp add: try_block_def formatResults_def)

lemma try_block_success:
  assumes "ok response" and "json response = Fulfilled parsed"
    and "audit_response.status parsed = Some ''success''"
    and "formatResults (data parsed) = Inr html"
  shows "\<exists>request. try_block url (Fulfilled response) =
     ([request, Set_resultDiv_innerHTML html], Completed)"
  using assms by (simp add: try_block_def)

lemma try_block_application_error:
  assumes "ok response" and "json response = Fulfilled parsed"
    and "audit_response.status parsed \<noteq> Some ''success''"
  shows "\<exists>request. try_block url (Fulfilled response) =
     ([request, Set_resultDiv_innerHTML (failure_banner (or_else (message parsed) ''Audit failed''))],
      Completed)"
  using assms by (simp add: try_block_def failure_banner_def)

subsection \<open>The run as a whole\<close>

lemma submit_thrown:
  "try_block (urlInput_value p) outcome = (effects, Thrown error) \<Longrightarrow>
   submit engine p outcome = before_try @ effects @ catch_block engine error @ finally_block"
  by (simp add: submit_def)

lemma submit_completed:
  "try_block (urlInput_value p) outcome = (effects, Completed) \<Longrightarrow>
   submit engine p outcome = before_try @ effects @ finally_block"
  by (simp add: submit_def)

lemma submit_suspended:
  "try_block (urlInput_value p) outcome = (effects, Suspended) \<Longrightarrow>
   submit engine p outcome = before_try @ effects"
  by (simp add: submit_def)

lemma run_append: "run p (xs @ ys) = run (run p xs) ys"
  by (simp add: run_def)

lemma run_finally_block:
  "submitBtn_disabled (run p finally_block) = False"
  "submitBtn_textContent (run p finally_block) = ''Run Audit''"
  "resultDiv_innerHTML (run p finally_block) = resultDiv_innerHTML p"
  by (simp_all add: run_def finally_block_def)

lemma run_catch_block:
  "resultDiv_innerHTML (run p (catch_block engine error)) = failure_banner (error_message engine error)"
  by (simp add: run_def catch_block_def failure_banner_def)

lemma after_submit_thrown:
  assumes "snd (try_block (urlInput_value p) outcome) = Thrown error"
  shows "resultDiv_innerHTML (after_submit engine p outcome) = failure_banner (error_message engine error)"
    and "submitBtn_disabled (after_submit engine p outcome) = False"
    and "submitBtn_textContent (after_submit engine p outcome) = ''Run Audit''"
proof -
  obtain effects where "try_block (urlInput_value p) outcome = (effects, Thrown error)"
    using assms by (cases "try_block (urlInput_value p) outcome") simp
  then have s: "submit engine p outcome = before_try @ effects @ catch_block engine error @ finally_block"
    by (rule submit_thrown)
  show "resultDiv_innerHTML (after_submit engine p outcome) = failure_banner (error_message engine error)"
    unfolding after_submit_def s by (simp only: run_append run_finally_block run_catch_block)
  show "submitBtn_disabled (after_submit engine p outcome) = False"
    unfolding after_submit_def s by (simp only: run_append run_finally_block)
  show "submitBtn_textContent (after_submit engine p outcome) = ''Run Audit''"
    unfolding after_submit_def s by (simp only: run_append run_finally_block)
qed

lemma after_submit_completed:
  assumes "try_block (urlInput_value p) outcome = ([request, Set_resultDiv_innerHTML html], Completed)"
  shows "resultDiv_innerHTML (after_submit engine p outcome) = html"
  unfolding after_submit_def submit_completed [OF assms]
  by (simp only: run_append run_finally_block) (simp add: run_def)

text \<open>A successful response is rendered by \<^verbatim>\<open>formatResults\<close>.\<close>

lemma after_submit_success:
  assumes "ok response" and "json response = Fulfilled parsed"
    and "audit_response.status parsed = Some ''success''"
    and "formatResults (data parsed) = Inr html"
  shows "resultDiv_innerHTML (after_submit engine p (Fulfilled response)) = html"
proof -
  obtain request where
    "try_block (urlInput_value p) (Fulfilled response) =
       ([request, Set_resultDiv_innerHTML html], Completed)"
    using try_block_success [OF assms] by blast
  then show ?thesis by (rule after_submit_completed)
qed

text \<open>A successful response without \<^verbatim>\<open>data\<close> is shown as the engine's \<^verbatim>\<open>TypeError\<close>.\<close>

lemma after_submit_no_data:
  assumes "ok response" and "json response = Fulfilled parsed"
    and "audit_response.status parsed = Some ''success''" and "data parsed = None"
  shows "resultDiv_innerHTML (after_submit engine p (Fulfilled response)) =
     failure_banner (engine ''errors'')"
proof -
  have "snd (try_block (urlInput_value p) (Fulfilled response)) = Thrown (TypeError_undefined ''errors'')"
    using assms by (rule try_block_no_data)
  then have "resultDiv_innerHTML (after_submit engine p (Fulfilled response)) =
      failure_banner (error_message engine (TypeError_undefined ''errors''))"
    by (rule after_submit_thrown)
  then show ?thesis by simp
qed

text \<open>
  When an await never settles, the run stops there: the button stays disabled and
  labelled as busy.
\<close>

lemma after_submit_suspended:
  assumes "\<not> settles outcome"
  shows "submitBtn_disabled (after_submit engine p outcome) = True"
    and "submitBtn_textContent (after_submit engine p outcome) = ''Running Audit...''"
proof -
  have "submit engine p outcome =
      before_try @ [Fetch ''https://seoauditai.onrender.com/audit''
           \<lparr>method = ''POST'', headers = [(''Content-Type'', ''application/json'')],
            body = JSON_stringify_url (urlInput_value p)\<rparr>]"
    using assms
    by (cases outcome) (auto simp: submit_def try_block_def split: awaited.splits if_splits)
  then show "submitBtn_disabled (after_submit engine p outcome) = True"
    and "submitBtn_textContent (after_submit engine p outcome) = ''Running Audit...''"
    by (simp_all add: after_submit_def run_def before_try_def)
qed

text \<open>
  Every run starts with the effects of lines 2 to 10, then calls \<^verbatim>\<open>fetch\<close>, and calls
  it no more after that.
\<close>

lemma submit_shape:
  \<open>\<exists>later. submit engine p outcome =
      before_try
      @ [Fetch ''https://seoauditai.onrender.com/audit''
           \<lparr>method = ''POST'', headers = [(''Content-Type'', ''application/json'')],
            body = JSON_stringify_url (urlInput_value p)\<rparr>]
      @ later
    \<and> \<not> list_ex is_request later\<close>
proof -
  let ?request = "Fetch ''https://seoauditai.onrender.com/audit''
           \<lparr>method = ''POST'', headers = [(''Content-Type'', ''application/json'')],
            body = JSON_stringify_url (urlInput_value p)\<rparr>"
  obtain effects ending where t: "try_block (urlInput_value p) outcome = (effects, ending)"
    by (cases "try_block (urlInput_value p) outcome")
  obtain later where e: "effects = ?request # later" and l: "\<not> list_ex is_request later"
    using try_block_first [of "urlInput_value p" outcome] t by auto
  show ?thesis
  proof (cases ending)
    case Suspended
    with t e have "submit engine p outcome = before_try @ [?request] @ later"
      by (simp add: submit_def)
    with l show ?thesis by blast
  next
    case (Thrown error)
    with t e have "submit engine p outcome =
        before_try @ [?request] @ (later @ catch_block engine error @ finally_block)"
      by (simp add: submit_def)
    moreover have "\<not> list_ex is_request (later @ catch_block engine error @ finally_block)"
      using l by (simp add: catch_block_def finally_block_def)
    ultimately show ?thesis by blast
  next
    case Completed
    with t e have "submit engine p outcome = before_try @ [?request] @ (later @ finally_block)"
      by (simp add: submit_def)
    moreover have "\<not> list_ex is_request (later @ finally_block)"
      using l by (simp add: finally_block_def)
    ultimately show ?thesis by blast
  qed
qed

lemma filter_no_request: "\<not> list_ex is_request xs \<Longrightarrow> filter is_request xs = []"
  by (induction xs) auto

lemma decimal_500: "decimal 500 = ''500''"
  by (simp add: decimal.simps digit_def)

subsection \<open>Before the request\<close>

text \<open>
  C7. Whatever the awaits find (also when they never settle), the run begins by
  preventing the default action, disabling the button, setting its label to
  \<^verbatim>\<open>Running Audit...\<close> and writing the loading placeholder into the result container;
  only then does it call \<^verbatim>\<open>fetch\<close>, and it makes no other request. When the request is
  sent the button is disabled, labelled as busy, and the placeholder is shown.
\<close>

theorem busy_before_request:
  \<open>(\<exists>later. submit engine p outcome =
       [PreventDefault,
        Set_submitBtn_disabled True,
        Set_submitBtn_textContent ''Running Audit...'',
        Set_resultDiv_innerHTML ''<p>Loading...</p>'']
       @ [Fetch ''https://seoauditai.onrender.com/audit''
            \<lparr>method = ''POST'', headers = [(''Content-Type'', ''application/json'')],
             body = JSON_stringify_url (urlInput_value p)\<rparr>]
       @ later
     \<and> \<not> list_ex is_request later)
   \<and> submitBtn_disabled
        (run p [PreventDefault,
                Set_submitBtn_disabled True,
                Set_submitBtn_textContent ''Running Audit...'',
                Set_resultDiv_innerHTML ''<p>Loading...</p>'']) = True
   \<and> submitBtn_textContent
        (run p [PreventDefault,
                Set_submitBtn_disabled True,
                Set_submitBtn_textContent ''Running Audit...'',
                Set_resultDiv_innerHTML ''<p>Loading...</p>'']) = ''Running Audit...''
   \<and> resultDiv_innerHTML
        (run p [PreventDefault,
                Set_submitBtn_disabled True,
                Set_submitBtn_textContent ''Running Audit...'',
                Set_resultDiv_innerHTML ''<p>Loading...</p>'']) = ''<p>Loading...</p>''\<close>
proof -
  have "\<exists>later. submit engine p outcome =
       [PreventDefault,
        Set_submitBtn_disabled True,
        Set_submitBtn_textContent ''Running Audit...'',
        Set_resultDiv_innerHTML ''<p>Loading...</p>'']
       @ [Fetch ''https://seoauditai.onrender.com/audit''
            \<lparr>method = ''POST'', headers = [(''Content-Type'', ''application/json'')],
             body = JSON_stringify_url (urlInput_value p)\<rparr>]
       @ later
     \<and> \<not> list_ex is_request later"
    using submit_shape [of engine p outcome] unfolding before_try_def .
  then show ?thesis by (simp add: run_def)
qed

subsection \<open>The request\<close>

text \<open>
  C8. For every value of the URL field and whatever the awaits find, the run makes
  exactly one request: a \<^verbatim>\<open>POST\<close> to the fixed address
  \<^verbatim>\<open>https://seoauditai.onrender.com/audit\<close> with the single header
  \<^verbatim>\<open>Content-Type: application/json\<close> and the body \<^verbatim>\<open>JSON.stringify({ url })\<close>, where
  \<^verbatim>\<open>url\<close> is the field's value as it is: no value is rejected, and the body determines
  the value (the serialisation is injective).
\<close>

theorem one_post_request:
  \<open>filter is_request (submit engine p outcome) =
     [Fetch ''https://seoauditai.onrender.com/audit''
        \<lparr>method = ''POST'', headers = [(''Content-Type'', ''application/json'')],
         body = ''{"url":'' @ QuoteJSONString (urlInput_value p) @ ''}''\<rparr>]
   \<and> inj JSON_stringify_url\<close>
proof -
  obtain later where
    s: "submit engine p outcome =
      before_try
      @ [Fetch ''https://seoauditai.onrender.com/audit''
           \<lparr>method = ''POST'', headers = [(''Content-Type'', ''application/json'')],
            body = JSON_stringify_url (urlInput_value p)\<rparr>]
      @ later"
    and l: "\<not> list_ex is_request later"
    using submit_shape [of engine p outcome] by blast
  have "filter is_request before_try = []"
    by (simp add: before_try_def)
  with filter_no_request [OF l] JSON_stringify_url_inj show ?thesis
    unfolding s by (simp add: JSON_stringify_url_def)
qed

subsection \<open>Failures\<close>

text \<open>
  C4. When the status of the response is outside the range 200 to 299, the \<^verbatim>\<open>try\<close>
  block throws an \<^verbatim>\<open>Error\<close> whose message ends with the decimal status, and the result
  container ends up holding the failure banner around that message, so the banner
  contains the status (\<^verbatim>\<open>500\<close> for a response with status 500).
\<close>

theorem http_error_banner:
  assumes "\<not> ok response"
  shows "snd (try_block (urlInput_value p) (Fulfilled response)) =
           Thrown (Error (''HTTP error! Status: '' @ decimal (response.status response)))
       \<and> resultDiv_innerHTML (after_submit engine p (Fulfilled response)) =
           failure_banner (''HTTP error! Status: '' @ decimal (response.status response))
       \<and> sublist (decimal (response.status response))
           (resultDiv_innerHTML (after_submit engine p (Fulfilled response)))"
proof -
  let ?e = "Error (''HTTP error! Status: '' @ decimal (response.status response))"
  have t: "snd (try_block (urlInput_value p) (Fulfilled response)) = Thrown ?e"
    using assms by (rule try_block_not_ok)
  have b: "resultDiv_innerHTML (after_submit engine p (Fulfilled response)) =
      failure_banner (''HTTP error! Status: '' @ decimal (response.status response))"
    using after_submit_thrown(1) [OF t, of engine] by simp
  have "sublist (decimal (response.status response))
      ((''<div class=\"alert alert-danger\">Error: '' @ ''HTTP error! Status: '')
        @ decimal (response.status response) @ ''</div>'')"
    by (rule sublist_appendI)
  then have "sublist (decimal (response.status response))
      (failure_banner (''HTTP error! Status: '' @ decimal (response.status response)))"
    by (simp add: failure_banner_def)
  with t b show ?thesis by simp
qed

theorem http_error_banner_witness:
  \<open>\<not> ok \<lparr>response.status = 500, json = Rejected (SyntaxError ''Unexpected token <'')\<rparr>
   \<and> resultDiv_innerHTML
        (after_submit v8 idle_page
           (Fulfilled \<lparr>response.status = 500, json = Rejected (SyntaxError ''Unexpected token <'')\<rparr>))
       = ''<div class="alert alert-danger">Error: HTTP error! Status: 500</div>''
   \<and> sublist ''500''
        (resultDiv_innerHTML
          (after_submit v8 idle_page
             (Fulfilled \<lparr>response.status = 500, json = Rejected (SyntaxError ''Unexpected token <'')\<rparr>)))\<close>
proof -
  let ?r = "\<lparr>response.status = 500, json = Rejected (SyntaxError ''Unexpected token <'')\<rparr>"
  have n: "\<not> ok ?r" by (simp add: ok_def)
  note h = http_error_banner [OF n, of idle_page v8]
  have b: "resultDiv_innerHTML (after_submit v8 idle_page (Fulfilled ?r))
      = ''<div class=\"alert alert-danger\">Error: HTTP error! Status: 500</div>''"
    using h [THEN conjunct2, THEN conjunct1] by (simp add: decimal_500 failure_banner_def)
  have c: "sublist ''500'' (resultDiv_innerHTML (after_submit v8 idle_page (Fulfilled ?r)))"
    using h [THEN conjunct2, THEN conjunct2] by (simp add: decimal_500)
  from n b c show ?thesis by (intro conjI)
qed

text \<open>
  C5, as the claim states it: a parsed response whose status is not \<^verbatim>\<open>success\<close> is
  shown by a banner around its message whenever the message is present. This fails
  for \<^verbatim>\<open>{status: "error", message: ""}\<close>: the message is present and empty, and the
  banner shows the fallback \<^verbatim>\<open>Audit failed\<close>.
\<close>

theorem empty_message_counterexample:
  \<open>\<not> (resultDiv_innerHTML
        (after_submit v8 idle_page
          (Fulfilled \<lparr>response.status = 200,
             json = Fulfilled \<lparr>audit_response.status = Some ''error'', data = None, message = Some []\<rparr>\<rparr>))
       = failure_banner
           (case message \<lparr>audit_response.status = Some ''error'', data = None, message = Some []\<rparr> of
              None \<Rightarrow> ''Audit failed''
            | Some m \<Rightarrow> m))\<close>
proof -
  let ?parsed = "\<lparr>audit_response.status = Some ''error'', data = None, message = Some []\<rparr>"
  let ?r = "\<lparr>response.status = 200, json = Fulfilled ?parsed\<rparr>"
  have "try_block (urlInput_value idle_page) (Fulfilled ?r) =
     ([Fetch ''https://seoauditai.onrender.com/audit''
         \<lparr>method = ''POST'', headers = [(''Content-Type'', ''application/json'')],
          body = JSON_stringify_url (urlInput_value idle_page)\<rparr>,
       Set_resultDiv_innerHTML (failure_banner ''Audit failed'')], Completed)"
    by (simp add: try_block_def ok_def or_else_def failure_banner_def)
  then have "resultDiv_innerHTML (after_submit v8 idle_page (Fulfilled ?r)) = failure_banner ''Audit failed''"
    by (rule after_submit_completed)
  then show ?thesis by (simp add: failure_banner_def)
qed

text \<open>
  C5, amended. For every parsed response whose status is not \<^verbatim>\<open>success\<close>, the result
  container ends up holding the failure banner around the response's message when the
  message is present and not empty, and around the fallback \<^verbatim>\<open>Audit failed\<close> otherwise.
\<close>

theorem application_error_banner:
  assumes "ok response" and "json response = Fulfilled parsed"
    and "audit_response.status parsed \<noteq> Some ''success''"
  shows "resultDiv_innerHTML (after_submit engine p (Fulfilled response)) =
     failure_banner
       (case message parsed of
          None \<Rightarrow> ''Audit failed''
        | Some m \<Rightarrow> if m = [] then ''Audit failed'' else m)"
proof -
  obtain request where
    "try_block (urlInput_value p) (Fulfilled response) =
       ([request, Set_resultDiv_innerHTML (failure_banner (or_else (message parsed) ''Audit failed''))],
        Completed)"
    using try_block_application_error [OF assms] by blast
  then have "resultDiv_innerHTML (after_submit engine p (Fulfilled response)) =
      failure_banner (or_else (message parsed) ''Audit failed'')"
    by (rule after_submit_completed)
  then show ?thesis by (simp add: or_else_def)
qed

theorem application_error_banner_witness:
  \<open>ok \<lparr>response.status = 200,
        json = Fulfilled \<lparr>audit_response.status = Some ''error'', data = None, message = Some ''bad url''\<rparr>\<rparr>
   \<and> Some ''error'' \<noteq> Some ''success''
   \<and> resultDiv_innerHTML
        (after_submit v8 idle_page
          (Fulfilled \<lparr>response.status = 200,
             json = Fulfilled \<lparr>audit_response.status = Some ''error'', data = None, message = Some ''bad url''\<rparr>\<rparr>))
       = ''<div class="alert alert-danger">Error: bad url</div>''\<close>
proof -
  let ?parsed = "\<lparr>audit_response.status = Some ''error'', data = None, message = Some ''bad url''\<rparr>"
  let ?r = "\<lparr>response.status = 200, json = Fulfilled ?parsed\<rparr>"
  have a: "ok ?r" by (simp add: ok_def)
  have b: "json ?r = Fulfilled ?parsed" by simp
  have c: "audit_response.status ?parsed \<noteq> Some ''success''" by simp
  have "resultDiv_innerHTML (after_submit v8 idle_page (Fulfilled ?r))
      = ''<div class=\"alert alert-danger\">Error: bad url</div>''"
    using application_error_banner [OF a b c, of v8 idle_page] by (simp add: failure_banner_def)
  with a show ?thesis by simp
qed

text \<open>
  C6. Whenever the \<^verbatim>\<open>try\<close> block ends by a throw, the result container ends up holding
  the failure banner around the message of the error thrown, and the button is enabled
  again. This is so when \<^verbatim>\<open>fetch\<close> is rejected (a network failure), when the status is
  outside the range 200 to 299, and when \<^verbatim>\<open>response.json()\<close> is rejected (the body is
  not valid JSON): then the banner holds the parser's message.
\<close>

theorem thrown_error_banner:
  "(snd (try_block (urlInput_value p) outcome) = Thrown error \<longrightarrow>
      resultDiv_innerHTML (after_submit engine p outcome) = failure_banner (error_message engine error)
      \<and> submitBtn_disabled (after_submit engine p outcome) = False)
   \<and> resultDiv_innerHTML (after_submit engine p (Rejected error)) =
        failure_banner (error_message engine error)
   \<and> (\<not> ok response \<longrightarrow>
        resultDiv_innerHTML (after_submit engine p (Fulfilled response)) =
          failure_banner (''HTTP error! Status: '' @ decimal (response.status response)))
   \<and> (ok response \<and> json response = Rejected error \<longrightarrow>
        resultDiv_innerHTML (after_submit engine p (Fulfilled response)) =
          failure_banner (error_message engine error)
        \<and> submitBtn_disabled (after_submit engine p (Fulfilled response)) = False)"
proof (intro conjI impI)
  assume "snd (try_block (urlInput_value p) outcome) = Thrown error"
  then show "resultDiv_innerHTML (after_submit engine p outcome) = failure_banner (error_message engine error)"
    and "submitBtn_disabled (after_submit engine p outcome) = False"
    by (rule after_submit_thrown)+
next
  show "resultDiv_innerHTML (after_submit engine p (Rejected error)) =
        failure_banner (error_message engine error)"
    by (rule after_submit_thrown) (rule try_block_rejected)
next
  assume "\<not> ok response"
  then have "snd (try_block (urlInput_value p) (Fulfilled response)) =
      Thrown (Error (''HTTP error! Status: '' @ decimal (response.status response)))"
    by (rule try_block_not_ok)
  from after_submit_thrown(1) [OF this, of engine]
  show "resultDiv_innerHTML (after_submit engine p (Fulfilled response)) =
          failure_banner (''HTTP error! Status: '' @ decimal (response.status response))"
    by simp
next
  assume "ok response \<and> json response = Rejected error"
  then have t: "snd (try_block (urlInput_value p) (Fulfilled response)) = Thrown error"
    by (simp add: try_block_json_rejected)
  show "resultDiv_innerHTML (after_submit engine p (Fulfilled response)) =
          failure_banner (error_message engine error)"
    using t by (rule after_submit_thrown)
  show "submitBtn_disabled (after_submit engine p (Fulfilled response)) = False"
    using t by (rule after_submit_thrown)
qed

theorem thrown_error_banner_witness:
  \<open>ok \<lparr>response.status = 200, json = Rejected (SyntaxError ''Unexpected end of JSON input'')\<rparr>
   \<and> resultDiv_innerHTML
        (after_submit v8 idle_page
          (Fulfilled \<lparr>response.status = 200, json = Rejected (SyntaxError ''Unexpected end of JSON input'')\<rparr>))
       = ''<div class="alert alert-danger">Error: Unexpected end of JSON input</div>''
   \<and> submitBtn_disabled
        (after_submit v8 idle_page
          (Fulfilled \<lparr>response.status = 200, json = Rejected (SyntaxError ''Unexpected end of JSON input'')\<rparr>))
       = False\<close>
proof -
  let ?e = "SyntaxError ''Unexpected end of JSON input''"
  let ?r = "\<lparr>response.status = 200, json = Rejected ?e\<rparr>"
  have a: "ok ?r \<and> json ?r = Rejected ?e" by (simp add: ok_def)
  note h = thrown_error_banner [of idle_page "Fulfilled ?r" ?e v8 ?r,
      THEN conjunct2, THEN conjunct2, THEN conjunct2, rule_format, OF a]
  from a h show ?thesis by (simp add: failure_banner_def)
qed

subsection \<open>Cleanup\<close>

text \<open>
  C1. Whenever the awaits of a run settle (the report is rendered, the status is not a
  success, the network fails, the body does not parse, the service reports an error, or
  rendering throws), the last two effects of the run enable the button and set its
  label to \<^verbatim>\<open>Run Audit\<close>, so the button ends up enabled with that label. The label the
  script writes is this fixed text: on a page whose button was labelled \<^verbatim>\<open>Run Audit\<close>
  before the run, the label is the one it had.
\<close>

theorem cleanup_on_every_exit:
  assumes "settles outcome"
  shows "(\<exists>earlier. submit engine p outcome =
            earlier @ [Set_submitBtn_disabled False, Set_submitBtn_textContent ''Run Audit''])
       \<and> submitBtn_disabled (after_submit engine p outcome) = False
       \<and> submitBtn_textContent (after_submit engine p outcome) = ''Run Audit''
       \<and> (submitBtn_textContent p = ''Run Audit'' \<longrightarrow>
            submitBtn_textContent (after_submit engine p outcome) = submitBtn_textContent p)"
proof -
  obtain effects ending where t: "try_block (urlInput_value p) outcome = (effects, ending)"
    by (cases "try_block (urlInput_value p) outcome")
  with assms have "ending \<noteq> Suspended"
    using try_block_settles [of outcome "urlInput_value p"] by simp
  then have "\<exists>earlier. submit engine p outcome = earlier @ finally_block"
    using t by (cases ending) (auto simp: submit_def)
  then obtain earlier where s: "submit engine p outcome = earlier @ finally_block" ..
  have "submitBtn_disabled (after_submit engine p outcome) = False"
    and "submitBtn_textContent (after_submit engine p outcome) = ''Run Audit''"
    unfolding after_submit_def s by (simp_all only: run_append run_finally_block)
  moreover have "\<exists>earlier. submit engine p outcome =
            earlier @ [Set_submitBtn_disabled False, Set_submitBtn_textContent ''Run Audit'']"
    using s unfolding finally_block_def by blast
  ultimately show ?thesis by simp
qed

theorem cleanup_on_every_exit_witness:
  "settles (Rejected (FetchRejection ''Failed to fetch''))
   \<and> submitBtn_disabled (after_submit v8 idle_page (Rejected (FetchRejection ''Failed to fetch''))) = False
   \<and> submitBtn_textContent (after_submit v8 idle_page (Rejected (FetchRejection ''Failed to fetch'')))
       = submitBtn_textContent idle_page"
  using cleanup_on_every_exit [of "Rejected (FetchRejection ''Failed to fetch'')" v8 idle_page]
  by (simp add: idle_page_def)

end
